theory Spec2Isabelle
  imports Main "HOL-Library.Word"
begin

section \<open>The platform: property namespace, query primitives, strtoll\<close>

text \<open>
  \<open>system_utils.cpp\<close> reads Android system properties through functions of the
  platform (\<open><sys/system_properties.h>\<close>, \<open><stdlib.h>\<close>). Strings of the model are
  the contents of the NUL-terminated C strings of the source. The namespace is a map
  from property names to values. The state also records, in order, every call that
  the code makes to the platform, so that statements such as "no parse is attempted"
  can be made.
\<close>

type_synonym namespace = "string \<rightharpoonup> string"

datatype platform_call =
    Find string
  | ReadCallback string
  | PropertyGet string
  | Strtoll string

record system =
  properties :: namespace
  calls :: "platform_call list"

text \<open>A \<open>const prop_info*\<close>: the handle of an entry of the namespace.\<close>

datatype prop_info = PropInfo (prop_name: string)

text \<open>
  Modelled from the spec: \<open>PROP_VALUE_MAX\<close> comes from the platform header
  \<open><sys/system_properties.h>\<close>, which is not part of the repository ("a fixed-size
  buffer with a defined maximum value length", "a few dozen bytes"). It counts the
  terminator: a value read through the legacy primitive has fewer than
  \<open>PROP_VALUE_MAX\<close> characters.
\<close>

definition PROP_VALUE_MAX :: nat where
  "PROP_VALUE_MAX = 92"

text \<open>
  Modelled from the spec: \<open>__system_property_find\<close>, a platform function. It returns
  the handle of the entry named \<open>key\<close>, or a null pointer (\<open>None\<close>) when the
  namespace has no such entry. It does not change the namespace.
\<close>

definition system_property_find ::
  "string \<Rightarrow> system \<Rightarrow> prop_info option \<times> system" where
  "system_property_find key s =
     ((case properties s key of None \<Rightarrow> None | Some v \<Rightarrow> Some (PropInfo key)),
      s\<lparr>calls := calls s @ [Find key]\<rparr>)"

text \<open>
  Modelled from the spec: \<open>__system_property_read_callback\<close>, a platform function.
  It calls \<open>callback\<close> once, before it returns, with the cookie, the name and the
  current value of the entry and a serial number; the value has no length limit.
  The callback updates the cookie, which the model returns. A handle whose entry
  is gone is answered with a null value.
\<close>

definition system_property_read_callback ::
  "prop_info \<Rightarrow> ('c \<Rightarrow> string \<Rightarrow> string option \<Rightarrow> 32 word \<Rightarrow> 'c) \<Rightarrow> 'c \<Rightarrow> system
     \<Rightarrow> 'c \<times> system" where
  "system_property_read_callback pi callback cookie s =
     (callback cookie (prop_name pi) (properties s (prop_name pi)) 0,
      s\<lparr>calls := calls s @ [ReadCallback (prop_name pi)]\<rparr>)"

text \<open>
  Modelled from the spec: \<open>__system_property_get\<close>, the legacy buffer-fill platform
  function. It writes the value of \<open>key\<close> into a buffer with room for
  \<open>PROP_VALUE_MAX\<close> bytes, terminator included, and returns the length of what it
  wrote; for a missing key it writes the empty string and returns 0. A value that
  does not fit is cut to the first \<open>PROP_VALUE_MAX - 1\<close> characters.
\<close>

definition system_property_get ::
  "string \<Rightarrow> system \<Rightarrow> (int \<times> string) \<times> system" where
  "system_property_get key s =
     (let buffer = (case properties s key of
                      None \<Rightarrow> []
                    | Some v \<Rightarrow> take (PROP_VALUE_MAX - 1) v)
      in ((int (length buffer), buffer), s\<lparr>calls := calls s @ [PropertyGet key]\<rparr>))"

subsection \<open>strtoll in base 10\<close>

text \<open>
  Modelled from the spec: \<open>strtoll\<close> is the C library's ("parses the string as a
  base-10 integer, tolerant of leading whitespace and a sign, per standard
  integer-parsing conventions"). It skips white space, reads an optional sign, then
  consumes decimal digits as long as there are any; the value is clamped to the range
  of \<open>long long\<close>, and it is 0 when no digit was read. The code passes a null end
  pointer and never reads \<open>errno\<close>, so only the returned value is modelled.
\<close>

definition isspace :: "char \<Rightarrow> bool" where
  "isspace c = (c = CHR '' '' \<or> c = CHR 0x09 \<or> c = CHR 0x0A \<or> c = CHR 0x0B
                \<or> c = CHR 0x0C \<or> c = CHR 0x0D)"

definition isdigit :: "char \<Rightarrow> bool" where
  "isdigit c = (48 \<le> (of_char c :: nat) \<and> (of_char c :: nat) \<le> 57)"

definition digit_value :: "char \<Rightarrow> int" where
  "digit_value c = int (of_char c) - 48"

definition LLONG_MAX :: int where
  "LLONG_MAX = 2 ^ 63 - 1"

definition LLONG_MIN :: int where
  "LLONG_MIN = - (2 ^ 63)"

fun skip_space :: "string \<Rightarrow> string" where
  "skip_space [] = []"
| "skip_space (c # cs) = (if isspace c then skip_space cs else c # cs)"

text \<open>The digit loop: \<open>acc\<close> is the value of the digits read so far.\<close>

fun strtoll_digits :: "int \<Rightarrow> string \<Rightarrow> int" where
  "strtoll_digits acc [] = acc"
| "strtoll_digits acc (c # cs) =
     (if isdigit c then strtoll_digits (10 * acc + digit_value c) cs else acc)"

fun strtoll_sign :: "string \<Rightarrow> bool \<times> string" where
  "strtoll_sign [] = (False, [])"
| "strtoll_sign (c # cs) =
     (if c = CHR ''-'' then (True, cs)
      else if c = CHR ''+'' then (False, cs)
      else (False, c # cs))"

definition strtoll_value :: "string \<Rightarrow> int" where
  "strtoll_value nptr =
     (case strtoll_sign (skip_space nptr) of
        (neg, ds) \<Rightarrow> if neg then - strtoll_digits 0 ds else strtoll_digits 0 ds)"

definition strtoll :: "string \<Rightarrow> 64 word" where
  "strtoll nptr = word_of_int (max LLONG_MIN (min LLONG_MAX (strtoll_value nptr)))"

definition strtoll_call :: "string \<Rightarrow> system \<Rightarrow> 64 word \<times> system" where
  "strtoll_call nptr s = (strtoll nptr, s\<lparr>calls := calls s @ [Strtoll nptr]\<rparr>)"

section \<open>system\_utils.cpp\<close>

text \<open>
  The lambda \<open>thunk\<close> of \<open>getSystemPropViaCallback\<close>: the cookie points to the
  string to be returned, which is overwritten when the value is not null.
\<close>

definition thunk :: "string \<Rightarrow> string \<Rightarrow> string option \<Rightarrow> 32 word \<Rightarrow> string" where
  "thunk cookie name val serial = (case val of None \<Rightarrow> cookie | Some v \<Rightarrow> v)"

definition getSystemPropViaCallback ::
  "string \<Rightarrow> string \<Rightarrow> system \<Rightarrow> string \<times> system" where
  "getSystemPropViaCallback key default_value s =
     (case system_property_find key s of
        (None, s1) \<Rightarrow> (default_value, s1)
      | (Some prop, s1) \<Rightarrow> system_property_read_callback prop thunk [] s1)"

text \<open>
  \<open>getSystemPropViaGet\<close> hands \<open>__system_property_get\<close> a local buffer of
  \<open>PROP_VALUE_MAX + 1\<close> bytes, initially the empty string, and returns what the
  buffer holds when the reported length is positive, the empty string otherwise. The
  parameter \<open>default_value\<close> does not occur in its body.
\<close>

definition getSystemPropViaGet ::
  "string \<Rightarrow> string \<Rightarrow> system \<Rightarrow> string \<times> system" where
  "getSystemPropViaGet key default_value s =
     (case system_property_get key s of
        ((bufferLen, buffer), s1) \<Rightarrow>
          if bufferLen > 0 then (buffer, s1) else ([], s1))"

text \<open>
  \<open>api\<close> is the value of \<open>__ANDROID_API__\<close> the file is compiled with: it selects
  one of the two functions above.
\<close>

definition GetSystemProp ::
  "int \<Rightarrow> string \<Rightarrow> string \<Rightarrow> system \<Rightarrow> string \<times> system" where
  "GetSystemProp api key default_value s =
     (if api \<ge> 26 then getSystemPropViaCallback key default_value s
      else getSystemPropViaGet key default_value s)"

text \<open>
  \<open>GetSystemPropAsInt\<close> calls \<open>GetSystemProp(key)\<close>, whose default is the empty
  string by the declaration in \<open>system_utils.h\<close>. The two branches of the
  conditional have types \<open>int\<close> and \<open>long long\<close>: the default is widened to 64
  bits, and the result of the conditional is narrowed to the 32 bits of \<open>int\<close>.
\<close>

definition GetSystemPropAsInt ::
  "int \<Rightarrow> string \<Rightarrow> 32 word \<Rightarrow> system \<Rightarrow> 32 word \<times> system" where
  "GetSystemPropAsInt api key default_value s =
     (case GetSystemProp api key [] s of
        (prop, s1) \<Rightarrow>
          if prop = [] then (ucast (scast default_value :: 64 word), s1)
          else (case strtoll_call prop s1 of (n, s2) \<Rightarrow> (ucast n, s2)))"

text \<open>The \<open>bool\<close> default is converted to the \<open>int\<close> 1 or 0.\<close>

definition GetSystemPropAsBool ::
  "int \<Rightarrow> string \<Rightarrow> bool \<Rightarrow> system \<Rightarrow> bool \<times> system" where
  "GetSystemPropAsBool api key default_value s =
     (case GetSystemPropAsInt api key (if default_value then 1 else 0) s of
        (n, s1) \<Rightarrow> (n \<noteq> 0, s1))"

section \<open>Notions used by the statements\<close>

text \<open>The calls to \<open>strtoll\<close> among the platform calls made so far.\<close>

fun is_parse :: "platform_call \<Rightarrow> bool" where
  "is_parse (Strtoll nptr) = True"
| "is_parse c = False"

definition parses :: "system \<Rightarrow> platform_call list" where
  "parses s = filter is_parse (calls s)"

text \<open>The integer that a string of decimal digits denotes.\<close>

definition decimal :: "string \<Rightarrow> int" where
  "decimal ds = foldl (\<lambda>a c. 10 * a + digit_value c) 0 ds"

text \<open>
  The longest prefix of a string that is a decimal number: white space, an optional
  sign, and the longest run of digits after them, which must not be empty. The
  result is the sign (\<open>True\<close> for minus) and the digits; \<open>None\<close> when the string has
  no such prefix.
\<close>

definition decimal_prefix :: "string \<Rightarrow> (bool \<times> string) option" where
  "decimal_prefix v =
     (let r = dropWhile isspace v;
          (neg, u) = (case r of
                        [] \<Rightarrow> (False, [])
                      | c # cs \<Rightarrow> if c = CHR ''-'' then (True, cs)
                                 else if c = CHR ''+'' then (False, cs)
                                 else (False, r));
          ds = takeWhile isdigit u
      in if ds = [] then None else Some (neg, ds))"

text \<open>The integer denoted by that prefix, 0 when there is none.\<close>

definition prefix_value :: "string \<Rightarrow> int" where
  "prefix_value v =
     (case decimal_prefix v of
        None \<Rightarrow> 0
      | Some (neg, ds) \<Rightarrow> if neg then - decimal ds else decimal ds)"

definition INT_MAX :: int where
  "INT_MAX = 2 ^ 31 - 1"

definition INT_MIN :: int where
  "INT_MIN = - (2 ^ 31)"

text \<open>
  Decoding as a function of the retrieved string and the default alone: what
  \<open>GetSystemPropAsInt\<close> and \<open>GetSystemPropAsBool\<close> make of the string that
  \<open>GetSystemProp\<close> hands them.
\<close>

definition decode_int :: "string \<Rightarrow> 32 word \<Rightarrow> 32 word" where
  "decode_int prop default_value = (if prop = [] then default_value else ucast (strtoll prop))"

definition decode_bool :: "string \<Rightarrow> bool \<Rightarrow> bool" where
  "decode_bool prop default_value = (decode_int prop (if default_value then 1 else 0) \<noteq> 0)"

text \<open>
  What \<open>GetSystemProp\<close> returns, written as a function of the API level, the
  namespace, the key and the default, with no state: the value of the key, cut to
  the buffer on the legacy path; for a missing key the default on the callback path
  and the empty string on the legacy path.
\<close>

definition lookup_result :: "int \<Rightarrow> namespace \<Rightarrow> string \<Rightarrow> string \<Rightarrow> string" where
  "lookup_result api ns key default_value =
     (case ns key of
        None \<Rightarrow> if 26 \<le> api then default_value else []
      | Some v \<Rightarrow> if 26 \<le> api then v else take (PROP_VALUE_MAX - 1) v)"

section \<open>The parser reads the longest decimal prefix\<close>

lemma skip_space_dropWhile: "skip_space cs = dropWhile isspace cs"
  by (induction cs) simp_all

lemma strtoll_digits_foldl:
  "strtoll_digits acc cs = foldl (\<lambda>a c. 10 * a + digit_value c) acc (takeWhile isdigit cs)"
  by (induction cs arbitrary: acc) simp_all

lemma strtoll_digits_decimal: "strtoll_digits 0 cs = decimal (takeWhile isdigit cs)"
  by (simp add: strtoll_digits_foldl decimal_def)

lemma decimal_Nil: "decimal [] = 0"
  by (simp add: decimal_def)

lemma sign_digits_prefix:
  "(case strtoll_sign r of
      (neg, ds) \<Rightarrow> if neg then - strtoll_digits 0 ds else strtoll_digits 0 ds) =
   (case (case (case r of
                  [] \<Rightarrow> (False, [])
                | c # cs \<Rightarrow> if c = CHR ''-'' then (True, cs)
                           else if c = CHR ''+'' then (False, cs)
                           else (False, r)) of
            (neg, u) \<Rightarrow>
              let ds = takeWhile isdigit u
              in if ds = [] then None else Some (neg, ds)) of
      None \<Rightarrow> 0
    | Some (neg, ds) \<Rightarrow> if neg then - decimal ds else decimal ds)"
  by (cases r) (simp_all add: strtoll_digits_decimal decimal_Nil Let_def)

lemma strtoll_value_prefix: "strtoll_value v = prefix_value v"
  using sign_digits_prefix [of "dropWhile isspace v"]
  by (simp add: strtoll_value_def prefix_value_def decimal_prefix_def skip_space_dropWhile Let_def)

lemma skip_space_append:
  "\<forall>c \<in> set ws. isspace c \<Longrightarrow> skip_space (ws @ r) = skip_space r"
  by (induction ws) simp_all

lemma takeWhile_all: "\<forall>c \<in> set ds. P c \<Longrightarrow> takeWhile P ds = ds"
  by (induction ds) simp_all

lemma isdigit_not_space: "isdigit c \<Longrightarrow> \<not> isspace c"
  by (auto simp add: isdigit_def isspace_def)

lemma isdigit_not_sign: "isdigit c \<Longrightarrow> c \<noteq> CHR ''-'' \<and> c \<noteq> CHR ''+''"
  by (auto simp add: isdigit_def)

lemma strtoll_value_integer_string:
  assumes ws: "\<forall>c \<in> set ws. isspace c"
    and sg: "sg = [] \<or> sg = ''+'' \<or> sg = ''-''"
    and ds: "ds \<noteq> []" "\<forall>c \<in> set ds. isdigit c"
  shows "strtoll_value (ws @ sg @ ds) = (if sg = ''-'' then - decimal ds else decimal ds)"
proof -
  obtain d ds' where d: "ds = d # ds'" using ds(1) by (cases ds) auto
  then have dd: "isdigit d" using ds(2) by simp
  have signs: "\<not> isspace CHR ''+''" "\<not> isspace CHR ''-''"
    by (simp_all add: isspace_def)
  have "skip_space (sg @ ds) = sg @ ds"
    using sg d isdigit_not_space [OF dd] signs by auto
  then have "skip_space (ws @ sg @ ds) = sg @ ds"
    by (simp add: skip_space_append [OF ws])
  moreover have "strtoll_digits 0 ds = decimal ds"
    by (simp add: strtoll_digits_decimal takeWhile_all ds(2))
  ultimately show ?thesis
    using sg d dd isdigit_not_sign [OF dd] by (auto simp add: strtoll_value_def)
qed

section \<open>Conversions between int and long long\<close>

lemma widen_narrow: "ucast (scast (d :: 32 word) :: 64 word) = d"
  by (rule bit_word_eqI) (auto simp add: bit_simps)

lemma narrow_of_int: "(ucast (word_of_int n :: 64 word) :: 32 word) = word_of_int n"
  by (rule bit_word_eqI) (auto simp add: bit_simps)

lemma narrow_int:
  assumes "- (2 ^ 31) \<le> n" "n < 2 ^ 31"
  shows "sint (ucast (word_of_int n :: 64 word) :: 32 word) = n"
  using assms by (simp add: narrow_of_int signed_of_int signed_take_bit_int_eq_self)

section \<open>What the operations return and which calls they make\<close>

lemma getSystemPropViaCallback_result:
  "fst (getSystemPropViaCallback key D s) = (case properties s key of None \<Rightarrow> D | Some v \<Rightarrow> v)"
  by (simp add: getSystemPropViaCallback_def system_property_find_def
      system_property_read_callback_def thunk_def split: option.splits)

lemma getSystemPropViaGet_result:
  "fst (getSystemPropViaGet key D s) =
     (case properties s key of None \<Rightarrow> [] | Some v \<Rightarrow> take (PROP_VALUE_MAX - 1) v)"
  by (simp add: getSystemPropViaGet_def system_property_get_def Let_def split: option.splits)

lemma getSystemPropViaCallback_state:
  "snd (getSystemPropViaCallback key D s) =
     s\<lparr>calls := calls s @ (case properties s key of
                             None \<Rightarrow> [Find key]
                           | Some v \<Rightarrow> [Find key, ReadCallback key])\<rparr>"
  by (simp add: getSystemPropViaCallback_def system_property_find_def
      system_property_read_callback_def split: option.splits)

lemma getSystemPropViaGet_state:
  "snd (getSystemPropViaGet key D s) = s\<lparr>calls := calls s @ [PropertyGet key]\<rparr>"
  by (simp add: getSystemPropViaGet_def system_property_get_def Let_def split: option.splits)

lemma GetSystemProp_result:
  "fst (GetSystemProp api key D s) =
     (case properties s key of
        None \<Rightarrow> if 26 \<le> api then D else []
      | Some v \<Rightarrow> if 26 \<le> api then v else take (PROP_VALUE_MAX - 1) v)"
  by (simp add: GetSystemProp_def getSystemPropViaCallback_result getSystemPropViaGet_result
      split: option.splits)

lemma GetSystemProp_state:
  "snd (GetSystemProp api key D s) =
     s\<lparr>calls := calls s @
         (if 26 \<le> api
          then (case properties s key of
                  None \<Rightarrow> [Find key]
                | Some v \<Rightarrow> [Find key, ReadCallback key])
          else [PropertyGet key])\<rparr>"
  by (simp add: GetSystemProp_def getSystemPropViaCallback_state getSystemPropViaGet_state)

lemma GetSystemProp_properties:
  "properties (snd (GetSystemProp api key D s)) = properties s"
  by (simp add: GetSystemProp_state)

lemma GetSystemProp_parses:
  "parses (snd (GetSystemProp api key D s)) = parses s"
  by (simp add: GetSystemProp_state parses_def split: option.splits)

text \<open>On the callback path a missing key gives the caller's default.\<close>

lemma GetSystemProp_callback_absent:
  "26 \<le> api \<Longrightarrow> properties s key = None \<Longrightarrow> fst (GetSystemProp api key D s) = D"
  by (simp add: GetSystemProp_result)

text \<open>A value that fits the path's buffer is retrieved as it is.\<close>

lemma GetSystemProp_fits:
  "properties s key = Some v \<Longrightarrow> 26 \<le> api \<or> length v < PROP_VALUE_MAX \<Longrightarrow>
   fst (GetSystemProp api key D s) = v"
  by (auto simp add: GetSystemProp_result)

lemma GetSystemPropAsInt_result:
  "fst (GetSystemPropAsInt api key D s) =
     (if fst (GetSystemProp api key [] s) = [] then D
      else ucast (strtoll (fst (GetSystemProp api key [] s))))"
  by (simp add: GetSystemPropAsInt_def strtoll_call_def widen_narrow split: prod.splits)

lemma GetSystemPropAsInt_state:
  "snd (GetSystemPropAsInt api key D s) =
     (if fst (GetSystemProp api key [] s) = [] then snd (GetSystemProp api key [] s)
      else (snd (GetSystemProp api key [] s))
             \<lparr>calls := calls (snd (GetSystemProp api key [] s))
                        @ [Strtoll (fst (GetSystemProp api key [] s))]\<rparr>)"
  by (simp add: GetSystemPropAsInt_def strtoll_call_def split: prod.splits)

lemma GetSystemPropAsInt_properties:
  "properties (snd (GetSystemPropAsInt api key D s)) = properties s"
  by (simp add: GetSystemPropAsInt_state GetSystemProp_properties)

text \<open>A retrieved string that is not empty is parsed, once.\<close>

lemma GetSystemPropAsInt_parses_nonempty:
  "fst (GetSystemProp api key [] s) \<noteq> [] \<Longrightarrow>
   parses (snd (GetSystemPropAsInt api key D s)) =
     parses s @ [Strtoll (fst (GetSystemProp api key [] s))]"
  by (simp add: GetSystemPropAsInt_state parses_def GetSystemProp_parses [unfolded parses_def])

lemma GetSystemPropAsBool_result:
  "fst (GetSystemPropAsBool api key d s) =
     (fst (GetSystemPropAsInt api key (if d then 1 else 0) s) \<noteq> 0)"
  by (simp add: GetSystemPropAsBool_def split: prod.splits)

lemma GetSystemPropAsBool_state:
  "snd (GetSystemPropAsBool api key d s) =
     snd (GetSystemPropAsInt api key (if d then 1 else 0) s)"
  by (simp add: GetSystemPropAsBool_def split: prod.splits)

lemma strtoll_zero: "strtoll ''0'' = 0"
  by (simp add: strtoll_def strtoll_value_def isspace_def isdigit_def digit_value_def
      LLONG_MAX_def LLONG_MIN_def)

lemma strtoll_one: "strtoll ''1'' = 1"
  by (simp add: strtoll_def strtoll_value_def isspace_def isdigit_def digit_value_def
      LLONG_MAX_def LLONG_MIN_def)

section \<open>The claims\<close>

subsection \<open>C1: a missing key and the default\<close>

text \<open>
  C1 says that for a key that is not in the namespace \<open>GetSystemProp(key, D)\<close>
  returns \<open>D\<close> on both paths. The callback path does (lemma
  \<open>GetSystemProp_callback_absent\<close>). The legacy path, \<open>getSystemPropViaGet\<close>,
  takes \<open>default_value\<close> and never uses it: compiled for an API level below 26,
  with an empty namespace, the call for \<open>debug.foo.missing\<close> with default
  \<open>fallback\<close> returns the empty string.
\<close>

theorem GetSystemProp_legacy_absent_ignores_default:
  "fst (GetSystemProp 21 ''debug.foo.missing'' ''fallback''
          \<lparr>properties = Map.empty, calls = []\<rparr>) = []"
  by (simp add: GetSystemProp_result)

subsection \<open>C2: a present key and its value\<close>

text \<open>
  C2 says that for every key present with value \<open>V\<close> and every default \<open>D\<close>,
  \<open>GetSystemProp(key, D)\<close> returns \<open>V\<close>. On the legacy path the value passes
  through \<open>char buffer[PROP_VALUE_MAX + 1]\<close>, so a longer value cannot come back
  whole. Counterexample to C2 as stated: compiled for API level 21, a key whose value
  has 100 characters; the result is not that value.
\<close>

theorem GetSystemProp_legacy_long_value_counterexample:
  "fst (GetSystemProp 21 ''ro.long'' ''x''
          \<lparr>properties = [''ro.long'' \<mapsto> ''0000000000000000000000000000000000000000000000000000000000000000000000000000000000000000000000000007''],
           calls = []\<rparr>)
   \<noteq> ''0000000000000000000000000000000000000000000000000000000000000000000000000000000000000000000000000007''"
  by (simp add: GetSystemProp_result PROP_VALUE_MAX_def)

text \<open>
  C2 as amended: for every key present with value \<open>V\<close>, the empty string included,
  and every default \<open>D\<close>, \<open>GetSystemProp(key, D)\<close> returns \<open>V\<close>, independent of
  \<open>D\<close>, on the callback path (API level 26 or more), and on the legacy path when
  \<open>V\<close> has fewer than \<open>PROP_VALUE_MAX\<close> characters.
\<close>

theorem GetSystemProp_present_returns_value:
  assumes "properties s key = Some V"
    and "26 \<le> api \<or> length V < PROP_VALUE_MAX"
  shows "fst (GetSystemProp api key D s) = V"
  using assms by (auto simp add: GetSystemProp_result)

text \<open>
  Witness for C2 as amended: the value \<open>"3"\<close> on the legacy path and the empty
  value on the callback path, both with an unrelated default.
\<close>

theorem GetSystemProp_present_returns_value_witness:
  "fst (GetSystemProp 21 ''debug.foo.level'' ''x''
          \<lparr>properties = [''debug.foo.level'' \<mapsto> ''3''], calls = []\<rparr>) = ''3''
 \<and> fst (GetSystemProp 26 ''debug.foo.on'' ''x''
          \<lparr>properties = [''debug.foo.on'' \<mapsto> []], calls = []\<rparr>) = []"
  using GetSystemProp_present_returns_value
      [of "\<lparr>properties = [''debug.foo.level'' \<mapsto> ''3''], calls = []\<rparr>"
        "''debug.foo.level''" "''3''" 21 "''x''"]
    GetSystemProp_present_returns_value
      [of "\<lparr>properties = [''debug.foo.on'' \<mapsto> []], calls = []\<rparr>"
        "''debug.foo.on''" "[]" 26 "''x''"]
  by (simp add: PROP_VALUE_MAX_def)

subsection \<open>C3: the integer default for a missing or empty value\<close>

text \<open>
  C3: for every key and every integer default \<open>D\<close>, if the key is absent from the
  namespace or present with the empty string as value, \<open>GetSystemPropAsInt(key, D)\<close>
  returns \<open>D\<close> exactly, and \<open>strtoll\<close> is not called: the calls to it recorded
  after the operation are those recorded before. This holds on both paths.
\<close>

theorem GetSystemPropAsInt_absent_or_empty:
  assumes "properties s key = None \<or> properties s key = Some []"
  shows "fst (GetSystemPropAsInt api key D s) = D
       \<and> parses (snd (GetSystemPropAsInt api key D s)) = parses s"
proof -
  have "fst (GetSystemProp api key [] s) = []"
    using assms by (auto simp add: GetSystemProp_result)
  then show ?thesis
    by (simp add: GetSystemPropAsInt_result GetSystemPropAsInt_state GetSystemProp_parses)
qed

text \<open>
  Witness for C3: the namespace holds \<open>debug.foo.level\<close> only; the lookup of
  \<open>debug.foo.missing\<close> with default \<open>-1\<close> returns \<open>-1\<close> and parses nothing.
\<close>

theorem GetSystemPropAsInt_absent_or_empty_witness:
  "fst (GetSystemPropAsInt 26 ''debug.foo.missing'' (- 1)
          \<lparr>properties = [''debug.foo.level'' \<mapsto> ''3''], calls = []\<rparr>) = - 1
 \<and> parses (snd (GetSystemPropAsInt 26 ''debug.foo.missing'' (- 1)
          \<lparr>properties = [''debug.foo.level'' \<mapsto> ''3''], calls = []\<rparr>)) = []"
  using GetSystemPropAsInt_absent_or_empty
    [of "\<lparr>properties = [''debug.foo.level'' \<mapsto> ''3''], calls = []\<rparr>"
      "''debug.foo.missing''" 26 "- 1"]
  by (simp add: parses_def)

subsection \<open>C4: the boolean accessor goes through the integer accessor\<close>

text \<open>
  C4: for every key and every boolean default \<open>d\<close>, \<open>GetSystemPropAsBool(key, d)\<close>
  equals \<open>GetSystemPropAsInt(key, d ? 1 : 0) != 0\<close>; in particular a present value
  \<open>"0"\<close> yields false and a present value \<open>"1"\<close> yields true, whatever \<open>d\<close> is.
\<close>

theorem GetSystemPropAsBool_via_int:
  "fst (GetSystemPropAsBool api key d s) =
     (fst (GetSystemPropAsInt api key (if d then 1 else 0) s) \<noteq> 0)
   \<and> (properties s key = Some ''0'' \<longrightarrow> \<not> fst (GetSystemPropAsBool api key d s))
   \<and> (properties s key = Some ''1'' \<longrightarrow> fst (GetSystemPropAsBool api key d s))"
  by (simp add: GetSystemPropAsBool_result GetSystemPropAsInt_result GetSystemProp_result
      PROP_VALUE_MAX_def strtoll_zero strtoll_one)

text \<open>
  Witness for C4: the value \<open>"0"\<close> with default true on the callback path, the value
  \<open>"1"\<close> with default false on the legacy path.
\<close>

theorem GetSystemPropAsBool_via_int_witness:
  "\<not> fst (GetSystemPropAsBool 26 ''k'' True \<lparr>properties = [''k'' \<mapsto> ''0''], calls = []\<rparr>)
 \<and> fst (GetSystemPropAsBool 21 ''k'' False \<lparr>properties = [''k'' \<mapsto> ''1''], calls = []\<rparr>)"
  using GetSystemPropAsBool_via_int
      [of 26 "''k''" True "\<lparr>properties = [''k'' \<mapsto> ''0''], calls = []\<rparr>",
        THEN conjunct2, THEN conjunct1]
    GetSystemPropAsBool_via_int
      [of 21 "''k''" False "\<lparr>properties = [''k'' \<mapsto> ''1''], calls = []\<rparr>",
        THEN conjunct2, THEN conjunct2]
  by simp

subsection \<open>C5: well-formed integer strings\<close>

text \<open>
  C5 says that for every key present with a well-formed base-10 integer string
  (optional leading white space, optional sign, then decimal digits) that denotes a
  value representable as \<open>int\<close>, \<open>GetSystemPropAsInt(key, D)\<close> returns that
  integer. Such a string can be longer than the buffer of the legacy path.
  Counterexample to C5 as stated: compiled for API level 21, the value is 99 zeros
  followed by 7, which denotes 7; the operation returns 0.
\<close>

theorem GetSystemPropAsInt_legacy_long_integer_counterexample:
  "list_all isdigit ''0000000000000000000000000000000000000000000000000000000000000000000000000000000000000000000000000007''
 \<and> decimal ''0000000000000000000000000000000000000000000000000000000000000000000000000000000000000000000000000007'' = 7
 \<and> sint (fst (GetSystemPropAsInt 21 ''ro.long'' 5
          \<lparr>properties = [''ro.long'' \<mapsto> ''0000000000000000000000000000000000000000000000000000000000000000000000000000000000000000000000000007''],
           calls = []\<rparr>)) = 0"
  by (simp add: GetSystemPropAsInt_result GetSystemProp_result PROP_VALUE_MAX_def
      strtoll_def strtoll_value_def isspace_def isdigit_def digit_value_def decimal_def
      LLONG_MAX_def LLONG_MIN_def)

text \<open>
  C5 as amended: for every key present with a value \<open>ws @ sg @ ds\<close>, where \<open>ws\<close>
  is white space, \<open>sg\<close> is empty or one sign and \<open>ds\<close> is a non-empty string of
  decimal digits, denoting an integer \<open>n\<close> between \<open>INT_MIN\<close> and \<open>INT_MAX\<close>,
  \<open>GetSystemPropAsInt(key, D)\<close> returns \<open>n\<close> for any default \<open>D\<close>, on the callback
  path, and on the legacy path when the value has fewer than \<open>PROP_VALUE_MAX\<close>
  characters.
\<close>

theorem GetSystemPropAsInt_integer_string:
  assumes "properties s key = Some (ws @ sg @ ds)"
    and "\<forall>c \<in> set ws. isspace c"
    and "sg = [] \<or> sg = ''+'' \<or> sg = ''-''"
    and "ds \<noteq> []" and "\<forall>c \<in> set ds. isdigit c"
    and "n = (if sg = ''-'' then - decimal ds else decimal ds)"
    and "INT_MIN \<le> n" and "n \<le> INT_MAX"
    and "26 \<le> api \<or> length (ws @ sg @ ds) < PROP_VALUE_MAX"
  shows "sint (fst (GetSystemPropAsInt api key D s)) = n"
proof -
  have r: "fst (GetSystemProp api key [] s) = ws @ sg @ ds"
    using assms(1,9) by (rule GetSystemProp_fits)
  have "ws @ sg @ ds \<noteq> []"
    using assms(4) by simp
  then have "fst (GetSystemPropAsInt api key D s) = ucast (strtoll (ws @ sg @ ds))"
    by (simp only: GetSystemPropAsInt_result r if_False)
  moreover have "strtoll_value (ws @ sg @ ds) = n"
    using strtoll_value_integer_string [OF assms(2,3,4,5)] assms(6) by simp
  moreover have "max LLONG_MIN (min LLONG_MAX n) = n"
    using assms(7,8) by (simp add: INT_MIN_def INT_MAX_def LLONG_MIN_def LLONG_MAX_def)
  ultimately have "fst (GetSystemPropAsInt api key D s) = ucast (word_of_int n :: 64 word)"
    by (simp add: strtoll_def)
  then show ?thesis
    using assms(7,8) by (simp add: narrow_int INT_MIN_def INT_MAX_def)
qed

text \<open>
  Witness for C5 as amended: the two examples of the claim, the value \<open>"42"\<close>, and
  the value \<open>"3"\<close> with default \<open>-1\<close>.
\<close>

theorem GetSystemPropAsInt_integer_string_witness:
  "sint (fst (GetSystemPropAsInt 26 ''k'' 0
          \<lparr>properties = [''k'' \<mapsto> ''42''], calls = []\<rparr>)) = 42
 \<and> sint (fst (GetSystemPropAsInt 21 ''debug.foo.level'' (- 1)
          \<lparr>properties = [''debug.foo.level'' \<mapsto> ''3''], calls = []\<rparr>)) = 3"
  using GetSystemPropAsInt_integer_string
      [of "\<lparr>properties = [''k'' \<mapsto> ''42''], calls = []\<rparr>" "''k''" "[]" "[]" "''42''" 42 26 0]
    GetSystemPropAsInt_integer_string
      [of "\<lparr>properties = [''debug.foo.level'' \<mapsto> ''3''], calls = []\<rparr>" "''debug.foo.level''"
        "[]" "[]" "''3''" 3 21 "- 1"]
  by (simp add: isdigit_def decimal_def digit_value_def INT_MIN_def INT_MAX_def PROP_VALUE_MAX_def)

subsection \<open>C6: an empty value and the boolean default\<close>

text \<open>
  C6: for every key present with the empty string as value,
  \<open>GetSystemPropAsBool(key, true)\<close> returns true: the empty value is handled like a
  missing one, and the default goes through the integer path as 1.
\<close>

theorem GetSystemPropAsBool_empty_value_true:
  assumes "properties s key = Some []"
  shows "fst (GetSystemPropAsBool api key True s)"
  using assms
  by (simp add: GetSystemPropAsBool_result GetSystemPropAsInt_result GetSystemProp_result)

text \<open>Witness for C6: the scenario of the specification, \<open>debug.foo.on = ""\<close>.\<close>

theorem GetSystemPropAsBool_empty_value_true_witness:
  "fst (GetSystemPropAsBool 21 ''debug.foo.on'' True
          \<lparr>properties = [''debug.foo.on'' \<mapsto> []], calls = []\<rparr>)"
  using GetSystemPropAsBool_empty_value_true
    [of "\<lparr>properties = [''debug.foo.on'' \<mapsto> []], calls = []\<rparr>" "''debug.foo.on''" 21]
  by simp

subsection \<open>C7: failures are absorbed into ordinary results\<close>



subsection \<open>C8: the operations are deterministic\<close>

text \<open>
  C8: the operations are deterministic functions of the key, the default and the
  namespace. For every API level, key, default and state, the result of
  \<open>GetSystemProp\<close> is \<open>lookup_result\<close> of the namespace, and the results of
  \<open>GetSystemPropAsInt\<close> and \<open>GetSystemPropAsBool\<close> are \<open>decode_int\<close> and
  \<open>decode_bool\<close> of \<open>lookup_result\<close> with the empty default: nothing else of the
  state is read. Two calls of the same operation with the same arguments, one after
  the other, return equal results: the second call runs in the state that the first
  one has left, platform calls included.
\<close>

theorem operations_deterministic:
  "fst (GetSystemProp api key D s) = lookup_result api (properties s) key D
   \<and> fst (GetSystemPropAsInt api key n s)
       = decode_int (lookup_result api (properties s) key []) n
   \<and> fst (GetSystemPropAsBool api key b s)
       = decode_bool (lookup_result api (properties s) key []) b
   \<and> fst (GetSystemProp api key D (snd (GetSystemProp api key D s)))
       = fst (GetSystemProp api key D s)
   \<and> fst (GetSystemPropAsInt api key n (snd (GetSystemPropAsInt api key n s)))
       = fst (GetSystemPropAsInt api key n s)
   \<and> fst (GetSystemPropAsBool api key b (snd (GetSystemPropAsBool api key b s)))
       = fst (GetSystemPropAsBool api key b s)"
proof -
  have look: "fst (GetSystemProp a k d t) = lookup_result a (properties t) k d" for a k d t
    by (simp add: GetSystemProp_result lookup_result_def)
  have int: "fst (GetSystemPropAsInt a k m t) = decode_int (lookup_result a (properties t) k []) m"
    for a k m t
    by (simp add: GetSystemPropAsInt_result look decode_int_def)
  have bool: "fst (GetSystemPropAsBool a k c t)
      = decode_bool (lookup_result a (properties t) k []) c" for a k c t
    by (simp add: GetSystemPropAsBool_result int decode_bool_def)
  have "properties (snd (GetSystemPropAsBool api key b s)) = properties s"
    by (simp add: GetSystemPropAsBool_state GetSystemPropAsInt_properties)
  then show ?thesis
    by (simp add: look int bool GetSystemProp_properties GetSystemPropAsInt_properties)
qed

text \<open>
  Witness for C8: with \<open>k = "42"\<close> on the callback path, the integer accessor
  returns 42, and returns 42 again when called in the state left by the first call.
\<close>

theorem operations_deterministic_witness:
  "sint (fst (GetSystemPropAsInt 26 ''k'' 0
          \<lparr>properties = [''k'' \<mapsto> ''42''], calls = []\<rparr>)) = 42
 \<and> sint (fst (GetSystemPropAsInt 26 ''k'' 0
          (snd (GetSystemPropAsInt 26 ''k'' 0
             \<lparr>properties = [''k'' \<mapsto> ''42''], calls = []\<rparr>)))) = 42"
  using operations_deterministic
    [of 26 "''k''" "[]" "\<lparr>properties = [''k'' \<mapsto> ''42''], calls = []\<rparr>" 0 False]
  by (simp add: lookup_result_def decode_int_def strtoll_def strtoll_value_def isspace_def
      isdigit_def digit_value_def LLONG_MIN_def LLONG_MAX_def)

subsection \<open>C9: the namespace is only read\<close>

text \<open>
  C9: no operation changes the property namespace: for every key and default the
  namespace after a call of \<open>GetSystemProp\<close>, \<open>GetSystemPropAsInt\<close> or
  \<open>GetSystemPropAsBool\<close> is the namespace before it. The integer and the boolean
  result are functions (\<open>decode_int\<close>, \<open>decode_bool\<close>) of the string that
  \<open>GetSystemProp(key)\<close> retrieves and of the default, and of nothing else.
\<close>

theorem operations_preserve_namespace:
  "properties (snd (GetSystemProp api key D s)) = properties s
   \<and> properties (snd (GetSystemPropAsInt api key n s)) = properties s
   \<and> properties (snd (GetSystemPropAsBool api key b s)) = properties s
   \<and> fst (GetSystemPropAsInt api key n s) = decode_int (fst (GetSystemProp api key [] s)) n
   \<and> fst (GetSystemPropAsBool api key b s) = decode_bool (fst (GetSystemProp api key [] s)) b"
  by (simp add: GetSystemProp_properties GetSystemPropAsInt_properties GetSystemPropAsBool_state
      GetSystemPropAsBool_result GetSystemPropAsInt_result decode_int_def decode_bool_def)

subsection \<open>C10: non-empty values are decoded by strtoll\<close>

text \<open>
  C10 says that for every key present with a non-empty value
  \<open>GetSystemPropAsInt\<close> returns the integer denoted by the longest valid
  decimal-number prefix of the value, and 0 when there is no such prefix. The result
  of \<open>strtoll\<close> is a \<open>long long\<close> and the function returns \<open>int\<close>, so an
  integer beyond the range of \<open>int\<close> is not returned as it is. Counterexample to
  C10 as stated, on the callback path: the value \<open>"4294967296"\<close> denotes
  \<open>2 ^ 32\<close>, and the operation returns 0.
\<close>

theorem GetSystemPropAsInt_out_of_int_range_counterexample:
  "prefix_value ''4294967296'' = 4294967296
 \<and> sint (fst (GetSystemPropAsInt 26 ''k'' 7
          \<lparr>properties = [''k'' \<mapsto> ''4294967296''], calls = []\<rparr>)) = 0"
  by (simp add: GetSystemPropAsInt_result GetSystemProp_result strtoll_def strtoll_value_prefix
      prefix_value_def decimal_prefix_def isspace_def isdigit_def decimal_def digit_value_def
      LLONG_MAX_def LLONG_MIN_def)

text \<open>
  C10 as amended: for every key present with a non-empty value \<open>v\<close> that the
  selected path retrieves whole (any value on the callback path, a value with fewer
  than \<open>PROP_VALUE_MAX\<close> characters on the legacy path), \<open>GetSystemPropAsInt\<close>
  returns the integer denoted by the longest valid decimal-number prefix of \<open>v\<close>,
  clamped to the range of \<open>long long\<close> and narrowed to the 32 bits of \<open>int\<close>;
  this is that integer itself when it lies between \<open>INT_MIN\<close> and \<open>INT_MAX\<close>
  (\<open>"42abc"\<close> decodes to 42). When \<open>v\<close> has no such prefix (\<open>"abc"\<close>) the result
  is 0, never the caller's default, and \<open>GetSystemPropAsBool\<close> returns false
  whatever its default is.
\<close>

theorem GetSystemPropAsInt_strtoll_prefix:
  assumes "properties s key = Some v" and "v \<noteq> []"
    and "26 \<le> api \<or> length v < PROP_VALUE_MAX"
  shows "fst (GetSystemPropAsInt api key D s)
           = ucast (word_of_int (max LLONG_MIN (min LLONG_MAX (prefix_value v))) :: 64 word)
       \<and> (INT_MIN \<le> prefix_value v \<and> prefix_value v \<le> INT_MAX \<longrightarrow>
            sint (fst (GetSystemPropAsInt api key D s)) = prefix_value v)
       \<and> (decimal_prefix v = None \<longrightarrow>
            fst (GetSystemPropAsInt api key D s) = 0
            \<and> \<not> fst (GetSystemPropAsBool api key d s))"
proof -
  have r: "fst (GetSystemProp api key [] s) = v"
    using assms(1,3) by (rule GetSystemProp_fits)
  have res: "fst (GetSystemPropAsInt api key n s)
           = ucast (word_of_int (max LLONG_MIN (min LLONG_MAX (prefix_value v))) :: 64 word)"
    for n
    using assms(2) by (simp add: GetSystemPropAsInt_result r strtoll_def strtoll_value_prefix)
  have in_range: "sint (fst (GetSystemPropAsInt api key D s)) = prefix_value v"
    if "INT_MIN \<le> prefix_value v \<and> prefix_value v \<le> INT_MAX"
    using that
    by (simp add: res narrow_int INT_MIN_def INT_MAX_def LLONG_MIN_def LLONG_MAX_def)
  have none: "fst (GetSystemPropAsInt api key n s) = 0" if "decimal_prefix v = None" for n
    using that by (simp add: res prefix_value_def LLONG_MIN_def LLONG_MAX_def)
  show ?thesis
  proof (intro conjI impI)
    show "fst (GetSystemPropAsInt api key D s)
           = ucast (word_of_int (max LLONG_MIN (min LLONG_MAX (prefix_value v))) :: 64 word)"
      by (rule res)
  next
    assume "INT_MIN \<le> prefix_value v \<and> prefix_value v \<le> INT_MAX"
    then show "sint (fst (GetSystemPropAsInt api key D s)) = prefix_value v"
      by (rule in_range)
  next
    assume "decimal_prefix v = None"
    then show "fst (GetSystemPropAsInt api key D s) = 0"
      by (rule none)
  next
    assume "decimal_prefix v = None"
    then show "\<not> fst (GetSystemPropAsBool api key d s)"
      by (simp add: GetSystemPropAsBool_result none)
  qed
qed

text \<open>
  Witness for C10 as amended: \<open>"42abc"\<close> decodes to 42 on the callback path;
  \<open>"abc"\<close> decodes to 0 on the legacy path although the default is 7, and the
  boolean accessor returns false although its default is true.
\<close>

theorem GetSystemPropAsInt_strtoll_prefix_witness:
  "sint (fst (GetSystemPropAsInt 26 ''k'' 7
          \<lparr>properties = [''k'' \<mapsto> ''42abc''], calls = []\<rparr>)) = 42
 \<and> fst (GetSystemPropAsInt 21 ''k'' 7 \<lparr>properties = [''k'' \<mapsto> ''abc''], calls = []\<rparr>) = 0
 \<and> \<not> fst (GetSystemPropAsBool 21 ''k'' True \<lparr>properties = [''k'' \<mapsto> ''abc''], calls = []\<rparr>)"
  using GetSystemPropAsInt_strtoll_prefix
      [of "\<lparr>properties = [''k'' \<mapsto> ''42abc''], calls = []\<rparr>" "''k''" "''42abc''" 26 7 True]
    GetSystemPropAsInt_strtoll_prefix
      [of "\<lparr>properties = [''k'' \<mapsto> ''abc''], calls = []\<rparr>" "''k''" "''abc''" 21 7 True]
  by (simp add: prefix_value_def decimal_prefix_def isspace_def isdigit_def decimal_def
      digit_value_def INT_MIN_def INT_MAX_def LLONG_MIN_def LLONG_MAX_def PROP_VALUE_MAX_def)

end
